theory Spec2Isabelle
  imports Complex_Main
begin

section \<open>Guarded action authorization of the EC2 management handler\<close>

text \<open>
  A shallow embedding of \<^verbatim>\<open>src/lambda/lambda_handler.py\<close>: the audit log
  (\<^verbatim>\<open>log_action\<close>), the confirmation tokens
  (\<^verbatim>\<open>generate_confirmation_token\<close>, \<^verbatim>\<open>verify_confirmation_token\<close>), the
  budget check (\<^verbatim>\<open>check_budget_limits\<close>), the AMI backup check
  (\<^verbatim>\<open>list_instance_amis\<close>, \<^verbatim>\<open>check_ami_backup_status\<close>), the two
  irreversible handlers (\<^verbatim>\<open>terminate_ec2_instance\<close>, \<^verbatim>\<open>delete_ebs_volume\<close>)
  and the dispatcher (\<^verbatim>\<open>process_ec2_action\<close>).

  Conventions of the model.
  \<^item> The two DynamoDB tables, the trace of EC2 calls and the text printed to standard
    output form the state \<open>world\<close>; every function takes the state and returns the new
    one beside its result.
  \<^item> What the outside answers is the record \<open>env\<close>: the clock, the responses of EC2
    to each request, and for each DynamoDB call whether it raises (\<open>Some\<close> of the
    exception text) or returns (\<open>None\<close>). One call of a handler reads the clock as one
    instant.
  \<^item> \<^verbatim>\<open>time.time()\<close> is a real number of seconds; Python's \<^verbatim>\<open>int()\<close> on it is
    \<open>py_int\<close>, truncation towards zero.
  \<^item> Library functions whose text is not in the repository are fields of \<open>env\<close>:
    \<^verbatim>\<open>json.dumps\<close>, the formatting of a float inside an f-string,
    \<^verbatim>\<open>hashlib.sha256(...).hexdigest()\<close>, \<^verbatim>\<open>datetime.isoformat()\<close>.
  \<^item> A dictionary that the source serialises with \<^verbatim>\<open>json.dumps\<close> into a table
    attribute and reads back with \<^verbatim>\<open>json.loads\<close> is stored as the dictionary itself.
  \<^item> Strings are ASCII; a Python exception that no handler catches is the response
    \<open>Raised\<close>.
  \<^item> An instance id, a volume id and a token are strings, a confirmation token that may
    be \<^verbatim>\<open>None\<close> is a \<open>string option\<close>, and \<^verbatim>\<open>skip_backup\<close> is a \<open>bool\<close>.
\<close>

subsection \<open>Python values\<close>

type_synonym params = "(string \<times> string) list"
  \<comment> \<open>a dictionary of string keys and string values, in insertion order\<close>

datatype exn =
    ClientError string
  | IndexError
  | OtherException string

definition py_int :: "real \<Rightarrow> int" where
  "py_int r = (if 0 \<le> r then \<lfloor>r\<rfloor> else \<lceil>r\<rceil>)"

definition upper_char :: "char \<Rightarrow> char" where
  "upper_char c =
     (case map_of (zip ''abcdefghijklmnopqrstuvwxyz'' ''ABCDEFGHIJKLMNOPQRSTUVWXYZ'') c of
        None \<Rightarrow> c | Some u \<Rightarrow> u)"

definition lower_char :: "char \<Rightarrow> char" where
  "lower_char c =
     (case map_of (zip ''ABCDEFGHIJKLMNOPQRSTUVWXYZ'' ''abcdefghijklmnopqrstuvwxyz'') c of
        None \<Rightarrow> c | Some l \<Rightarrow> l)"

definition upper :: "string \<Rightarrow> string" where
  "upper s = map upper_char s"

definition lower :: "string \<Rightarrow> string" where
  "lower s = map lower_char s"

definition truthy :: "string option \<Rightarrow> bool" where
  \<comment> \<open>the truth value of an optional string: \<^verbatim>\<open>None\<close> and \<^verbatim>\<open>''\<close> are false\<close>
  "truthy t = (case t of None \<Rightarrow> False | Some s \<Rightarrow> s \<noteq> [])"

subsection \<open>State and environment\<close>

record token_item =
  t_action :: string
  t_parameters :: params
  created_at :: string
  expires_at :: int
  ttl :: int

record log_item =
  log_id :: string
  timestamp :: string
  l_action :: string
  l_parameters :: params
  status :: string
  l_result :: "params option"
  l_error :: "string option"
  user_query :: string
  user_email :: string
  l_ttl :: int

datatype ec2_call =
    DescribeInstances string
  | DescribeImages string
  | TerminateInstances string
  | DescribeVolumes string
  | DeleteVolume string

record world =
  confirmation_table :: "string \<rightharpoonup> token_item"
  action_log_table :: "log_item list"
  ec2_calls :: "ec2_call list"
  stdout :: "string list"

record ec2_instance =
  InstanceType :: string
  StateName :: string
  Tags :: "(string \<times> string) list"

record image =
  ImageId :: string
  ImageName :: string
  ImageState :: string
  CreationDate :: real
  Description :: string
  ImageTags :: "(string \<times> string) list"

record volume =
  VolumeId :: string
  Attachments :: "string list"

record env =
  now :: real
  uuid4 :: string
  isoformat :: "real \<Rightarrow> string"
  json_dumps :: "params \<Rightarrow> string"
  str_float :: "real \<Rightarrow> string"
  sha256_hexdigest :: "string \<Rightarrow> string"
  describe_instances :: "string \<Rightarrow> exn + ec2_instance list list"
  describe_images :: "string \<Rightarrow> exn + image list"
  terminate_instances :: "string \<Rightarrow> exn + string list"
  describe_volumes :: "string \<Rightarrow> exn + volume list"
  delete_volume :: "string \<Rightarrow> exn + unit"
  log_put_item :: "string option"
  token_put_item :: "string option"
  token_get_item :: "string option"
  token_delete_item :: "string option"

subsection \<open>Audit log\<close>

definition log_action ::
  "env \<Rightarrow> world \<Rightarrow> string \<Rightarrow> params \<Rightarrow> string \<Rightarrow> params option \<Rightarrow> string option \<Rightarrow>
   string option \<Rightarrow> string option \<Rightarrow> world"
where
  "log_action e w action parameters stat result error query email =
     (let item = \<lparr> log_id = uuid4 e,
                    timestamp = isoformat e (now e),
                    l_action = action,
                    l_parameters = parameters,
                    status = stat,
                    l_result = (case result of None \<Rightarrow> None
                                | Some r \<Rightarrow> if r = [] then None else Some r),
                    l_error = (case error of None \<Rightarrow> None
                               | Some x \<Rightarrow> if x = [] then None else Some x),
                    user_query = (case query of None \<Rightarrow> [] | Some q \<Rightarrow> q),
                    user_email = (case email of None \<Rightarrow> ''anonymous''
                                  | Some m \<Rightarrow> if m = [] then ''anonymous'' else m),
                    l_ttl = py_int (now e) + 90 * 24 * 60 * 60 \<rparr>
      in case log_put_item e of
           None \<Rightarrow> w\<lparr>action_log_table := action_log_table w @ [item]\<rparr>
         | Some x \<Rightarrow> w\<lparr>stdout := stdout w @ [''Error logging action: '' @ x]\<rparr>)"

subsection \<open>Confirmation tokens\<close>

definition token_value :: "env \<Rightarrow> string \<Rightarrow> params \<Rightarrow> string" where
  "token_value e action parameters =
     (let data = action @ '':'' @ json_dumps e parameters @ '':'' @ str_float e (now e)
      in upper (take 12 (sha256_hexdigest e data)))"

definition generate_confirmation_token ::
  "env \<Rightarrow> world \<Rightarrow> string \<Rightarrow> params \<Rightarrow> string option \<times> world"
where
  "generate_confirmation_token e w action parameters =
     (let token = token_value e action parameters
      in case token_put_item e of
           None \<Rightarrow>
             (Some token,
              w\<lparr>confirmation_table := (confirmation_table w)(token \<mapsto>
                   \<lparr> t_action = action,
                     t_parameters = parameters,
                     created_at = isoformat e (now e),
                     expires_at = py_int (now e + 300),
                     ttl = py_int (now e + 300) \<rparr>)\<rparr>)
         | Some x \<Rightarrow>
             (None, w\<lparr>stdout := stdout w @ [''Error creating confirmation token: '' @ x]\<rparr>))"

datatype verification =
    Valid string params
  | Invalid string

definition verify_confirmation_token :: "env \<Rightarrow> world \<Rightarrow> string \<Rightarrow> verification \<times> world" where
  "verify_confirmation_token e w token =
     (case token_get_item e of
        Some x \<Rightarrow> (Invalid x, w)
      | None \<Rightarrow>
         (case confirmation_table w token of
            None \<Rightarrow> (Invalid ''Invalid confirmation token'', w)
          | Some token_data \<Rightarrow>
             if py_int (now e) > expires_at token_data then
               (case token_delete_item e of
                  Some x \<Rightarrow> (Invalid x, w)
                | None \<Rightarrow>
                   (Invalid ''Token expired (5 min limit)'',
                    w\<lparr>confirmation_table := (confirmation_table w)(token := None)\<rparr>))
             else
               (case token_delete_item e of
                  Some x \<Rightarrow> (Invalid x, w)
                | None \<Rightarrow>
                   (Valid (t_action token_data) (t_parameters token_data),
                    w\<lparr>confirmation_table := (confirmation_table w)(token := None)\<rparr>))))"

subsection \<open>Budget check\<close>

definition INSTANCE_PRICING :: "(string \<times> real) list" where
  "INSTANCE_PRICING =
     [(''t3.nano'', 0.0052), (''t3.micro'', 0.0104), (''t3.small'', 0.0208),
      (''t3.medium'', 0.0416), (''t3.large'', 0.0832), (''t3.xlarge'', 0.1664),
      (''t3.2xlarge'', 0.3328), (''t2.micro'', 0.0116), (''t2.small'', 0.023),
      (''t2.medium'', 0.0464), (''t2.large'', 0.0928), (''m5.large'', 0.096),
      (''m5.xlarge'', 0.192), (''m5.2xlarge'', 0.384), (''m5.4xlarge'', 0.768),
      (''c5.large'', 0.085), (''c5.xlarge'', 0.17), (''c5.2xlarge'', 0.34),
      (''r5.large'', 0.126), (''r5.xlarge'', 0.252), (''r5.2xlarge'', 0.504)]"

record budget_decision =
  allowed :: bool
  reason :: "string option"
  hourly_cost :: real
  limit :: "real option"
  monthly_cost :: real

definition check_budget_limits :: "(string \<times> real) list \<Rightarrow> real \<Rightarrow> string \<Rightarrow> budget_decision" where
  \<comment> \<open>the globals \<^verbatim>\<open>INSTANCE_PRICING\<close> and \<^verbatim>\<open>MAX_INSTANCE_COST_PER_HOUR\<close> are the
      first two arguments\<close>
  "check_budget_limits pricing max_cost instance_type =
     (let hourly = (case map_of pricing instance_type of None \<Rightarrow> 0 | Some c \<Rightarrow> c)
      in if hourly > max_cost then
           \<lparr> allowed = False,
             reason = Some ''Instance type exceeds budget limit'',
             hourly_cost = hourly,
             limit = Some max_cost,
             monthly_cost = hourly * 730 \<rparr>
         else
           \<lparr> allowed = True,
             reason = None,
             hourly_cost = hourly,
             limit = None,
             monthly_cost = hourly * 730 \<rparr>)"

subsection \<open>AMI backup check\<close>

datatype amis_result =
    AmisFailed string
  | Amis "image list"

text \<open>
  \<^verbatim>\<open>list_instance_amis\<close>. An \<open>image\<close> is the \<^verbatim>\<open>ami_info\<close> dictionary the source
  builds; its \<open>CreationDate\<close> is the instant the ISO-8601 string denotes. The result is
  \<open>Inl\<close> of an exception that is not a \<^verbatim>\<open>ClientError\<close> (it propagates) or \<open>Inr\<close>
  of the returned dictionary. \<^verbatim>\<open>sort(key=..., reverse=True)\<close> is the stable sort of
  the reversed list, reversed.
\<close>

definition list_instance_amis :: "env \<Rightarrow> world \<Rightarrow> string \<Rightarrow> (exn + amis_result) \<times> world" where
  "list_instance_amis e w instance_id =
     (let w1 = w\<lparr>ec2_calls := ec2_calls w @ [DescribeImages instance_id]\<rparr>
      in case describe_images e instance_id of
           Inl ex \<Rightarrow> (case ex of ClientError x \<Rightarrow> (Inr (AmisFailed x), w1)
                      | IndexError \<Rightarrow> (Inl ex, w1)
                      | OtherException x \<Rightarrow> (Inl ex, w1))
         | Inr images \<Rightarrow> (Inr (Amis (rev (sort_key CreationDate (rev images)))), w1))"

datatype backup_status =
    StatusFailed string
      \<comment> \<open>\<^verbatim>\<open>{'success': False, 'error': ...}\<close>\<close>
  | NoBackup
      \<comment> \<open>\<^verbatim>\<open>success, has_backup = False\<close>, message, recommendation\<close>
  | RecentBackup image nat nat
      \<comment> \<open>\<^verbatim>\<open>has_recent_backup = True, latest_ami, recent_amis_count, total_amis_count\<close>\<close>
  | StaleBackup image nat
      \<comment> \<open>\<^verbatim>\<open>has_recent_backup = False, latest_ami, total_amis_count\<close>, recommendation\<close>

fun bs_success :: "backup_status \<Rightarrow> bool" where
  "bs_success (StatusFailed x) = False"
| "bs_success NoBackup = True"
| "bs_success (RecentBackup a n m) = True"
| "bs_success (StaleBackup a m) = True"

fun bs_has_recent_backup :: "backup_status \<Rightarrow> bool" where
  \<comment> \<open>\<^verbatim>\<open>backup_status.get('has_recent_backup', False)\<close>\<close>
  "bs_has_recent_backup (StatusFailed x) = False"
| "bs_has_recent_backup NoBackup = False"
| "bs_has_recent_backup (RecentBackup a n m) = True"
| "bs_has_recent_backup (StaleBackup a m) = False"

definition check_ami_backup_status :: "env \<Rightarrow> world \<Rightarrow> string \<Rightarrow> (exn + backup_status) \<times> world" where
  "check_ami_backup_status e w instance_id =
     (case list_instance_amis e w instance_id of
        (Inl ex, w1) \<Rightarrow> (case ex of ClientError x \<Rightarrow> (Inr (StatusFailed x), w1)
                         | IndexError \<Rightarrow> (Inl ex, w1)
                         | OtherException x \<Rightarrow> (Inl ex, w1))
      | (Inr (AmisFailed x), w1) \<Rightarrow> (Inr (StatusFailed x), w1)
      | (Inr (Amis amis), w1) \<Rightarrow>
         (case amis of
            [] \<Rightarrow> (Inr NoBackup, w1)
          | newest # others \<Rightarrow>
             (let cutoff_date = now e - 7 * 86400;
                  recent_amis = filter (\<lambda>ami. CreationDate ami > cutoff_date) amis
              in case recent_amis of
                   latest # rest \<Rightarrow>
                     (Inr (RecentBackup latest (length recent_amis) (length amis)), w1)
                 | [] \<Rightarrow> (Inr (StaleBackup newest (length amis)), w1))))"

subsection \<open>Irreversible handlers\<close>

datatype response =
    Failure string
      \<comment> \<open>\<^verbatim>\<open>{'success': False, 'error': ...}\<close>\<close>
  | BackupRequired backup_status string string
      \<comment> \<open>\<^verbatim>\<open>requires_confirmation\<close> with \<^verbatim>\<open>backup_status, message, recommendation\<close>\<close>
  | TerminateConfirmation "string option" string string string string
      \<comment> \<open>\<^verbatim>\<open>requires_confirmation\<close> with \<^verbatim>\<open>confirmation_token\<close> and the
          \<^verbatim>\<open>instance_details\<close>: id, name, type, state\<close>
  | Terminated string string string
      \<comment> \<open>\<^verbatim>\<open>success\<close> with \<^verbatim>\<open>instance_id, instance_name, state\<close>\<close>
  | DeleteConfirmation "string option"
      \<comment> \<open>\<^verbatim>\<open>requires_confirmation\<close> with \<^verbatim>\<open>confirmation_token\<close>\<close>
  | VolumeDeleted string
      \<comment> \<open>\<^verbatim>\<open>success\<close> with \<^verbatim>\<open>volume_id\<close>\<close>
  | Raised exn
      \<comment> \<open>an exception left the handler\<close>

text \<open>
  The \<^verbatim>\<open>message\<close> texts of the confirmation and success responses are left out.
  \<open>on_exception\<close> is the \<^verbatim>\<open>except ClientError\<close> clause that closes each handler: a
  \<^verbatim>\<open>ClientError\<close> is logged and returned, any other exception propagates.
\<close>

definition on_exception :: "env \<Rightarrow> world \<Rightarrow> string \<Rightarrow> params \<Rightarrow> exn \<Rightarrow> response \<times> world" where
  "on_exception e w action parameters ex =
     (case ex of
        ClientError x \<Rightarrow>
          (Failure x, log_action e w action parameters ''failed'' None (Some x) None None)
      | IndexError \<Rightarrow> (Raised ex, w)
      | OtherException x \<Rightarrow> (Raised ex, w))"

definition instance_name_of :: "ec2_instance \<Rightarrow> string" where
  "instance_name_of inst = (case map_of (Tags inst) ''Name'' of None \<Rightarrow> ''Unknown'' | Some v \<Rightarrow> v)"

text \<open>Lines 610 to 622 of \<^verbatim>\<open>terminate_ec2_instance\<close>: the call of the backend.\<close>

definition terminate_execute :: "env \<Rightarrow> world \<Rightarrow> string \<Rightarrow> string \<Rightarrow> response \<times> world" where
  "terminate_execute e w instance_id instance_name =
     (let w1 = w\<lparr>ec2_calls := ec2_calls w @ [TerminateInstances instance_id]\<rparr>
      in case terminate_instances e instance_id of
           Inl ex \<Rightarrow> on_exception e w1 ''terminate_instance'' [(''instance_id'', instance_id)] ex
         | Inr states \<Rightarrow>
            (case states of
               [] \<Rightarrow> (Raised IndexError, w1)
             | current_state # other \<Rightarrow>
                (Terminated instance_id instance_name current_state,
                 log_action e w1 ''terminate_instance'' [(''instance_id'', instance_id)]
                   ''success'' None None None None)))"

text \<open>Lines 587 to 608: the confirmation gate.\<close>

definition terminate_require_confirmation ::
  "env \<Rightarrow> world \<Rightarrow> string \<Rightarrow> ec2_instance \<Rightarrow> response \<times> world"
where
  "terminate_require_confirmation e w instance_id inst =
     (case generate_confirmation_token e w ''terminate_instance'' [(''instance_id'', instance_id)] of
        (token, w1) \<Rightarrow>
          (TerminateConfirmation token instance_id (instance_name_of inst)
             (InstanceType inst) (StateName inst),
           log_action e w1 ''terminate_instance'' [(''instance_id'', instance_id)]
             ''requires_confirmation'' None None None None))"

definition terminate_token_gate ::
  "env \<Rightarrow> world \<Rightarrow> string \<Rightarrow> ec2_instance \<Rightarrow> string option \<Rightarrow> response \<times> world"
where
  "terminate_token_gate e w instance_id inst confirmation_token =
     (case confirmation_token of
        None \<Rightarrow> terminate_require_confirmation e w instance_id inst
      | Some token \<Rightarrow>
         if token = [] then terminate_require_confirmation e w instance_id inst
         else
           (case verify_confirmation_token e w token of
              (Invalid err, w1) \<Rightarrow> (Failure err, w1)
            | (Valid a p, w1) \<Rightarrow> terminate_execute e w1 instance_id (instance_name_of inst)))"

definition terminate_ec2_instance ::
  "env \<Rightarrow> world \<Rightarrow> string \<Rightarrow> string option \<Rightarrow> bool \<Rightarrow> response \<times> world"
where
  "terminate_ec2_instance e w instance_id confirmation_token skip_backup =
     (let w1 = w\<lparr>ec2_calls := ec2_calls w @ [DescribeInstances instance_id]\<rparr>
      in case describe_instances e instance_id of
           Inl ex \<Rightarrow> on_exception e w1 ''terminate_instance'' [(''instance_id'', instance_id)] ex
         | Inr reservations \<Rightarrow>
            (case reservations of
               [] \<Rightarrow> (Failure (''Instance '' @ instance_id @ '' not found''), w1)
             | instances # other_reservations \<Rightarrow>
                (case instances of
                   [] \<Rightarrow> (Raised IndexError, w1)
                 | inst # other_instances \<Rightarrow>
                    if \<not> skip_backup then
                      (case check_ami_backup_status e w1 instance_id of
                         (Inl ex, w2) \<Rightarrow>
                           on_exception e w2 ''terminate_instance''
                             [(''instance_id'', instance_id)] ex
                       | (Inr backup_status, w2) \<Rightarrow>
                           if bs_success backup_status \<and> \<not> bs_has_recent_backup backup_status
                           then
                             (BackupRequired backup_status
                                ''No recent AMI backup. Create AMI first or confirm to proceed.''
                                (''Run: 'Create AMI backup for '' @ instance_id @ [CHR 0x27]),
                              log_action e w2 ''terminate_instance''
                                [(''instance_id'', instance_id)] ''requires_confirmation''
                                (Some [(''reason'', ''no_recent_backup'')]) None None None)
                           else terminate_token_gate e w2 instance_id inst confirmation_token)
                    else terminate_token_gate e w1 instance_id inst confirmation_token)))"

definition delete_require_confirmation :: "env \<Rightarrow> world \<Rightarrow> string \<Rightarrow> response \<times> world" where
  "delete_require_confirmation e w volume_id =
     (case generate_confirmation_token e w ''delete_volume'' [(''volume_id'', volume_id)] of
        (token, w1) \<Rightarrow>
          (DeleteConfirmation token,
           log_action e w1 ''delete_volume'' [(''volume_id'', volume_id)]
             ''requires_confirmation'' None None None None))"

definition delete_execute :: "env \<Rightarrow> world \<Rightarrow> string \<Rightarrow> response \<times> world" where
  "delete_execute e w volume_id =
     (let w1 = w\<lparr>ec2_calls := ec2_calls w @ [DeleteVolume volume_id]\<rparr>
      in case delete_volume e volume_id of
           Inl ex \<Rightarrow> on_exception e w1 ''delete_volume'' [(''volume_id'', volume_id)] ex
         | Inr u \<Rightarrow>
            (VolumeDeleted volume_id,
             log_action e w1 ''delete_volume'' [(''volume_id'', volume_id)]
               ''success'' None None None None))"

definition delete_ebs_volume :: "env \<Rightarrow> world \<Rightarrow> string \<Rightarrow> string option \<Rightarrow> response \<times> world" where
  "delete_ebs_volume e w volume_id confirmation_token =
     (let w1 = w\<lparr>ec2_calls := ec2_calls w @ [DescribeVolumes volume_id]\<rparr>
      in case describe_volumes e volume_id of
           Inl ex \<Rightarrow> on_exception e w1 ''delete_volume'' [(''volume_id'', volume_id)] ex
         | Inr volumes \<Rightarrow>
            (case volumes of
               [] \<Rightarrow> (Raised IndexError, w1)
             | vol # other_volumes \<Rightarrow>
                if Attachments vol \<noteq> [] then (Failure ''Volume attached. Detach first.'', w1)
                else
                  (case confirmation_token of
                     None \<Rightarrow> delete_require_confirmation e w1 volume_id
                   | Some token \<Rightarrow>
                      if token = [] then delete_require_confirmation e w1 volume_id
                      else
                        (case verify_confirmation_token e w1 token of
                           (Invalid err, w2) \<Rightarrow> (Failure err, w2)
                         | (Valid a p, w2) \<Rightarrow> delete_execute e w2 volume_id))))"

subsection \<open>Dispatcher\<close>

text \<open>
  \<^verbatim>\<open>process_ec2_action\<close>. The handlers are the parameter \<open>h\<close>: \<open>h name parameters\<close>
  is the call that the branch of the action \<open>name\<close> makes.
\<close>

definition process_ec2_action ::
  "(string \<Rightarrow> 'p \<Rightarrow> world \<Rightarrow> response \<times> world) \<Rightarrow> world \<Rightarrow> string \<Rightarrow> 'p \<Rightarrow> response \<times> world"
where
  "process_ec2_action h w action0 parameters =
     (let action = lower action0
      in if action = ''list_instances'' then h ''list_instances'' parameters w
         else if action = ''launch_instance'' then h ''launch_instance'' parameters w
         else if action = ''terminate_instance'' then h ''terminate_instance'' parameters w
         else if action = ''start_instance'' then h ''start_instance'' parameters w
         else if action = ''stop_instance'' then h ''stop_instance'' parameters w
         else if action = ''change_instance_type'' then h ''change_instance_type'' parameters w
         else if action = ''check_ami_backup'' then h ''check_ami_backup'' parameters w
         else if action = ''create_ami_backup'' then h ''create_ami_backup'' parameters w
         else if action = ''list_amis'' then h ''list_amis'' parameters w
         else if action = ''create_cpu_alarm'' then h ''create_cpu_alarm'' parameters w
         else if action = ''create_status_alarm'' then h ''create_status_alarm'' parameters w
         else if action = ''list_alarms'' then h ''list_alarms'' parameters w
         else if action = ''delete_alarm'' then h ''delete_alarm'' parameters w
         else if action = ''list_volumes'' then h ''list_volumes'' parameters w
         else if action = ''create_volume'' then h ''create_volume'' parameters w
         else if action = ''attach_volume'' then h ''attach_volume'' parameters w
         else if action = ''detach_volume'' then h ''detach_volume'' parameters w
         else if action = ''delete_volume'' then h ''delete_volume'' parameters w
         else if action = ''get_action_logs'' then h ''get_action_logs'' parameters w
         else (Failure (''Unknown action: '' @ action), w))"

definition supported_actions :: "string list" where
  "supported_actions =
     [''list_instances'', ''launch_instance'', ''terminate_instance'', ''start_instance'',
      ''stop_instance'', ''change_instance_type'', ''check_ami_backup'', ''create_ami_backup'',
      ''list_amis'', ''create_cpu_alarm'', ''create_status_alarm'', ''list_alarms'',
      ''delete_alarm'', ''list_volumes'', ''create_volume'', ''attach_volume'',
      ''detach_volume'', ''delete_volume'', ''get_action_logs'']"

subsection \<open>Observations on a run\<close>

fun is_mutating :: "ec2_call \<Rightarrow> bool" where
  "is_mutating (DescribeInstances i) = False"
| "is_mutating (DescribeImages i) = False"
| "is_mutating (TerminateInstances i) = True"
| "is_mutating (DescribeVolumes v) = False"
| "is_mutating (DeleteVolume v) = True"

definition mutations :: "world \<Rightarrow> ec2_call list" where
  "mutations w = filter is_mutating (ec2_calls w)"


definition same_outcome :: "response \<times> world \<Rightarrow> response \<times> world \<Rightarrow> bool" where
  \<comment> \<open>two runs return the same response and leave the same tokens and the same trace of
      EC2 calls\<close>
  "same_outcome r s =
     (fst r = fst s \<and> confirmation_table (snd r) = confirmation_table (snd s)
      \<and> ec2_calls (snd r) = ec2_calls (snd s))"

definition same_decision :: "response \<times> world \<Rightarrow> response \<times> world \<Rightarrow> bool" where
  \<comment> \<open>two runs return the same response and leave the same tokens and the same mutating
      EC2 calls\<close>
  "same_decision r s =
     (fst r = fst s \<and> confirmation_table (snd r) = confirmation_table (snd s)
      \<and> mutations (snd r) = mutations (snd s))"

definition empty_world :: world where
  "empty_world = \<lparr> confirmation_table = Map.empty, action_log_table = [], ec2_calls = [], stdout = [] \<rparr>"

text \<open>
  An environment in which every outside call answers: one running instance named
  \<open>web\<close> behind every instance id, no image, one unattached volume behind every volume
  id. Its digest is a stand-in that reverses its argument.
\<close>

definition sample_env :: env where
  "sample_env =
     \<lparr> now = 1000,
       uuid4 = ''log-1'',
       isoformat = (\<lambda>t. ''1970-01-01T00:16:40''),
       json_dumps = (\<lambda>p. concat (map (\<lambda>(k, v). k @ ''='' @ v) p)),
       str_float = (\<lambda>t. ''1000.0''),
       sha256_hexdigest = rev,
       describe_instances =
         (\<lambda>i. Inr [[\<lparr> InstanceType = ''t3.micro'', StateName = ''running'',
                        Tags = [(''Name'', ''web'')] \<rparr>]]),
       describe_images = (\<lambda>i. Inr []),
       terminate_instances = (\<lambda>i. Inr [''shutting-down'']),
       describe_volumes = (\<lambda>v. Inr [\<lparr> VolumeId = v, Attachments = [] \<rparr>]),
       delete_volume = (\<lambda>v. Inr ()),
       log_put_item = None,
       token_put_item = None,
       token_get_item = None,
       token_delete_item = None \<rparr>"

text \<open>
  The state after \<^verbatim>\<open>terminate_ec2_instance('i-1')\<close> without a token and without the
  backup check, in \<open>sample_env\<close>: the token \<open>0.0001:1-I=D\<close> is stored, bound to
  \<open>terminate_instance\<close> and to \<^verbatim>\<open>{'instance_id': 'i-1'}\<close>, until second 1300.
\<close>

definition issued_world :: world where
  "issued_world = snd (terminate_ec2_instance sample_env empty_world ''i-1'' None True)"

section \<open>Properties\<close>

subsection \<open>Token values and expiry\<close>








subsection \<open>Budget check\<close>

text \<open>
  Claim C8: the decision compares the hourly cost of the instance type with the hourly
  ceiling, the monthly cost reported is the hourly cost times 730, and a type that the
  price table does not know costs 0 and is allowed under a ceiling that is not negative.
  With an hourly cost of 0.20: a ceiling of 0.10 refuses it and reports 146.00 a month; a
  ceiling of 100 allows it, although 146.00 exceeds 100, so the monthly cost is not what
  is compared. Costs are real numbers.
\<close>

theorem budget_compares_hourly_cost:
  "allowed (check_budget_limits pricing max_cost t) =
     (hourly_cost (check_budget_limits pricing max_cost t) \<le> max_cost)
   \<and> hourly_cost (check_budget_limits pricing max_cost t) =
       (case map_of pricing t of None \<Rightarrow> 0 | Some c \<Rightarrow> c)
   \<and> monthly_cost (check_budget_limits pricing max_cost t) =
       hourly_cost (check_budget_limits pricing max_cost t) * 730
   \<and> (map_of pricing t = None \<and> 0 \<le> max_cost \<longrightarrow>
        allowed (check_budget_limits pricing max_cost t))
   \<and> \<not> allowed (check_budget_limits [(''x'', 0.20)] 0.10 ''x'')
   \<and> monthly_cost (check_budget_limits [(''x'', 0.20)] 0.10 ''x'') = 146.00
   \<and> allowed (check_budget_limits [(''x'', 0.20)] 100 ''x'')"
  by (simp add: check_budget_limits_def Let_def)

theorem budget_compares_hourly_cost_witness:
  "map_of INSTANCE_PRICING ''p4d.24xlarge'' = None \<and> (0::real) \<le> 1
   \<and> allowed (check_budget_limits INSTANCE_PRICING 1 ''p4d.24xlarge'')
   \<and> hourly_cost (check_budget_limits INSTANCE_PRICING 1 ''p4d.24xlarge'') = 0"
proof -
  have u: "map_of INSTANCE_PRICING ''p4d.24xlarge'' = None" by (simp add: INSTANCE_PRICING_def)
  from budget_compares_hourly_cost [of INSTANCE_PRICING 1 "''p4d.24xlarge''"]
  have "map_of INSTANCE_PRICING ''p4d.24xlarge'' = None \<and> (0::real) \<le> 1 \<longrightarrow>
          allowed (check_budget_limits INSTANCE_PRICING 1 ''p4d.24xlarge'')"
   and "hourly_cost (check_budget_limits INSTANCE_PRICING 1 ''p4d.24xlarge'') =
          (case map_of INSTANCE_PRICING ''p4d.24xlarge'' of None \<Rightarrow> 0 | Some c \<Rightarrow> c)"
    by blast+
  with u show ?thesis by simp
qed

subsection \<open>Unknown actions\<close>

text \<open>
  Claim C9, refuted as stated: the rejection of the unknown action \<open>reboot_instance\<close>
  writes no audit record, with status \<open>failed\<close> or any other.
\<close>

theorem unknown_action_writes_no_audit_record:
  "fst (process_ec2_action (\<lambda>n p w. (Failure n, w)) empty_world ''reboot_instance'' ([] :: params))
     = Failure ''Unknown action: reboot_instance''
   \<and> action_log_table
       (snd (process_ec2_action (\<lambda>n p w. (Failure n, w)) empty_world ''reboot_instance''
          ([] :: params))) = []"
  by (simp add: process_ec2_action_def lower_def lower_char_def empty_world_def)

text \<open>
  Claim C9, amended: a request whose action name, once lower-cased, is none of the
  supported actions is answered with the error \<^verbatim>\<open>Unknown action: \<close> followed by the
  lower-cased name; no handler is called and the state is left as it was, so that no guard
  has run and no audit record has been written.
\<close>

theorem unknown_action_is_rejected_untouched:
  "lower a \<notin> set supported_actions \<Longrightarrow>
   process_ec2_action h w a p = (Failure (''Unknown action: '' @ lower a), w)"
  by (simp add: process_ec2_action_def supported_actions_def Let_def)

theorem unknown_action_is_rejected_untouched_witness:
  "lower ''Reboot_Instance'' \<notin> set supported_actions
   \<and> process_ec2_action (\<lambda>n p w. (Raised IndexError, w)) empty_world ''Reboot_Instance''
       ([] :: params) = (Failure ''Unknown action: reboot_instance'', empty_world)"
proof -
  have l: "lower ''Reboot_Instance'' = ''reboot_instance''"
    by (simp add: lower_def lower_char_def)
  have n: "lower ''Reboot_Instance'' \<notin> set supported_actions"
    by (simp add: l supported_actions_def)
  show ?thesis
    using n unknown_action_is_rejected_untouched
              [OF n, of "\<lambda>n p w. (Raised IndexError, w)" empty_world "[] :: params"]
    by (simp add: l)
qed

subsection \<open>Verification of a token\<close>

lemma sample_token: "token_value sample_env ''terminate_instance'' [(''instance_id'', ''i-1'')] = ''0.0001:1-I=D''"
  by (simp add: token_value_def sample_env_def upper_def upper_char_def)

lemma issued_world_eq:
  "issued_world =
     \<lparr> confirmation_table = [''0.0001:1-I=D'' \<mapsto>
          \<lparr> t_action = ''terminate_instance'', t_parameters = [(''instance_id'', ''i-1'')],
            created_at = ''1970-01-01T00:16:40'', expires_at = 1300, ttl = 1300 \<rparr>],
       action_log_table =
         [\<lparr> log_id = ''log-1'', timestamp = ''1970-01-01T00:16:40'',
            l_action = ''terminate_instance'', l_parameters = [(''instance_id'', ''i-1'')],
            status = ''requires_confirmation'', l_result = None, l_error = None,
            user_query = [], user_email = ''anonymous'', l_ttl = 7777000 \<rparr>],
       ec2_calls = [DescribeInstances ''i-1''],
       stdout = [] \<rparr>"
  unfolding issued_world_def terminate_ec2_instance_def terminate_token_gate_def
    terminate_require_confirmation_def generate_confirmation_token_def sample_token
  by (simp add: sample_env_def empty_world_def log_action_def py_int_def Let_def)

lemma issued_token_item:
  "confirmation_table issued_world ''0.0001:1-I=D'' =
     Some \<lparr> t_action = ''terminate_instance'', t_parameters = [(''instance_id'', ''i-1'')],
            created_at = ''1970-01-01T00:16:40'', expires_at = 1300, ttl = 1300 \<rparr>"
  by (simp add: issued_world_eq)





lemma verify_valid:
  "confirmation_table w tok = Some item \<Longrightarrow> py_int (now e) \<le> expires_at item \<Longrightarrow>
   token_get_item e = None \<Longrightarrow> token_delete_item e = None \<Longrightarrow>
   verify_confirmation_token e w tok =
     (Valid (t_action item) (t_parameters item),
      w\<lparr>confirmation_table := (confirmation_table w)(tok := None)\<rparr>)"
  by (simp add: verify_confirmation_token_def)



text \<open>
  The comparison is made in whole seconds and is strict: during the second
  \<open>expires_at\<close> itself the token is still honoured.
\<close>

lemma honoured_during_expiry_second:
  "fst (verify_confirmation_token (sample_env\<lparr>now := 1300.5\<rparr>) issued_world ''0.0001:1-I=D'')
     = Valid ''terminate_instance'' [(''instance_id'', ''i-1'')]"
proof -
  let ?e = "sample_env\<lparr>now := 1300.5\<rparr>"
  have "py_int (now ?e) = 1300" by (simp add: py_int_def)
  moreover have "token_get_item ?e = None" "token_delete_item ?e = None" by (simp_all add: sample_env_def)
  ultimately show ?thesis
    using verify_valid [OF issued_token_item, of ?e] by simp
qed




subsection \<open>Audit log failures\<close>

lemma log_action_frame:
  "confirmation_table (log_action e w a p s r x q m) = confirmation_table w"
  "ec2_calls (log_action e w a p s r x q m) = ec2_calls w"
  by (simp_all add: log_action_def Let_def split: option.splits)

lemma log_action_env:
  "log_action (e\<lparr>log_put_item := Some x\<rparr>) w a p s r er q m =
     w\<lparr>stdout := stdout w @ [''Error logging action: '' @ x]\<rparr>"
  by (simp add: log_action_def Let_def)

lemma generate_env: "generate_confirmation_token (e\<lparr>log_put_item := l\<rparr>) = generate_confirmation_token e"
  by (intro ext) (simp add: generate_confirmation_token_def token_value_def Let_def split: option.splits)

lemma verify_env: "verify_confirmation_token (e\<lparr>log_put_item := l\<rparr>) = verify_confirmation_token e"
  by (intro ext) (simp add: verify_confirmation_token_def split: option.splits)

lemma check_env: "check_ami_backup_status (e\<lparr>log_put_item := l\<rparr>) = check_ami_backup_status e"
  by (intro ext)
     (simp add: check_ami_backup_status_def list_instance_amis_def Let_def
           split: sum.splits exn.splits amis_result.splits list.splits prod.splits)

lemma same_outcome_refl: "same_outcome r r"
  by (simp add: same_outcome_def)

lemma logged_same:
  "confirmation_table w = confirmation_table w' \<Longrightarrow> ec2_calls w = ec2_calls w' \<Longrightarrow>
   same_outcome (r, log_action e1 w a p s x y q m) (r, log_action e2 w' a' p' s' x' y' q' m')"
  by (simp add: same_outcome_def log_action_frame)

lemma on_exception_same:
  "confirmation_table w = confirmation_table w' \<Longrightarrow> ec2_calls w = ec2_calls w' \<Longrightarrow>
   same_outcome (on_exception (e\<lparr>log_put_item := l\<rparr>) w a p ex) (on_exception (e\<lparr>log_put_item := l'\<rparr>) w' a p ex)"
  by (simp add: same_outcome_def on_exception_def log_action_frame split: exn.splits)

lemma terminate_execute_same:
  "same_outcome (terminate_execute (e\<lparr>log_put_item := l\<rparr>) w i n) (terminate_execute (e\<lparr>log_put_item := l'\<rparr>) w i n)"
  unfolding terminate_execute_def Let_def
  by (auto simp: on_exception_same logged_same same_outcome_refl split: sum.splits list.splits)

lemma require_confirmation_same:
  "same_outcome (terminate_require_confirmation (e\<lparr>log_put_item := l\<rparr>) w i inst)
                (terminate_require_confirmation (e\<lparr>log_put_item := l'\<rparr>) w i inst)"
  unfolding terminate_require_confirmation_def generate_env
  by (simp add: logged_same split: prod.splits)

lemma token_gate_same:
  "same_outcome (terminate_token_gate (e\<lparr>log_put_item := l\<rparr>) w i inst tok)
                (terminate_token_gate (e\<lparr>log_put_item := l'\<rparr>) w i inst tok)"
  unfolding terminate_token_gate_def verify_env
  by (auto simp: require_confirmation_same terminate_execute_same same_outcome_refl
           split: option.splits prod.splits verification.splits)

lemma terminate_same:
  "same_outcome (terminate_ec2_instance (e\<lparr>log_put_item := l\<rparr>) w i tok skip)
                (terminate_ec2_instance (e\<lparr>log_put_item := l'\<rparr>) w i tok skip)"
  unfolding terminate_ec2_instance_def check_env Let_def
  by (auto simp: on_exception_same token_gate_same same_outcome_refl logged_same
           split: sum.splits list.splits prod.splits)

lemma delete_require_same:
  "same_outcome (delete_require_confirmation (e\<lparr>log_put_item := l\<rparr>) w v)
                (delete_require_confirmation (e\<lparr>log_put_item := l'\<rparr>) w v)"
  unfolding delete_require_confirmation_def generate_env
  by (simp add: logged_same split: prod.splits)

lemma delete_execute_same:
  "same_outcome (delete_execute (e\<lparr>log_put_item := l\<rparr>) w v) (delete_execute (e\<lparr>log_put_item := l'\<rparr>) w v)"
  unfolding delete_execute_def Let_def
  by (auto simp: on_exception_same logged_same split: sum.splits)

lemma delete_same:
  "same_outcome (delete_ebs_volume (e\<lparr>log_put_item := l\<rparr>) w v tok)
                (delete_ebs_volume (e\<lparr>log_put_item := l'\<rparr>) w v tok)"
  unfolding delete_ebs_volume_def verify_env Let_def
  by (auto simp: on_exception_same delete_require_same delete_execute_same same_outcome_refl
           split: sum.splits list.splits option.splits prod.splits verification.splits)

text \<open>
  Claim C10: whether the write to the audit log raises or not, the two irreversible
  handlers return the same response, leave the same tokens in the store and make the same
  EC2 calls; the failing write is caught inside \<^verbatim>\<open>log_action\<close>, which prints
  \<^verbatim>\<open>Error logging action: \<close> and the text of the exception and appends no record.
\<close>

theorem log_failure_leaves_outcome:
  "same_outcome (terminate_ec2_instance (e\<lparr>log_put_item := Some x\<rparr>) w i tok skip)
                (terminate_ec2_instance (e\<lparr>log_put_item := None\<rparr>) w i tok skip)
   \<and> same_outcome (delete_ebs_volume (e\<lparr>log_put_item := Some x\<rparr>) w v tok)
                  (delete_ebs_volume (e\<lparr>log_put_item := None\<rparr>) w v tok)
   \<and> log_action (e\<lparr>log_put_item := Some x\<rparr>) w a p s r er q m =
       w\<lparr>stdout := stdout w @ [''Error logging action: '' @ x]\<rparr>"
  by (simp add: terminate_same delete_same log_action_env)

subsection \<open>Confirmation gate\<close>

lemma log_action_mutations: "mutations (log_action e w a p s r x q m) = mutations w"
  by (simp add: mutations_def log_action_frame)

lemma generate_calls: "ec2_calls (snd (generate_confirmation_token e w a p)) = ec2_calls w"
  by (simp add: generate_confirmation_token_def Let_def split: option.splits)

lemma generate_result:
  "generate_confirmation_token e w a p =
     (if token_put_item e = None then Some (token_value e a p) else None,
      snd (generate_confirmation_token e w a p))"
  by (simp add: generate_confirmation_token_def Let_def split: option.splits)

lemma generate_stores:
  "token_put_item e = None \<Longrightarrow>
   confirmation_table (snd (generate_confirmation_token e w a p)) (token_value e a p) =
     Some \<lparr> t_action = a, t_parameters = p, created_at = isoformat e (now e),
            expires_at = py_int (now e + 300), ttl = py_int (now e + 300) \<rparr>"
  by (simp add: generate_confirmation_token_def Let_def)

lemma on_exception_mutations: "mutations (snd (on_exception e w a p ex)) = mutations w"
  by (simp add: on_exception_def log_action_mutations split: exn.splits)

lemma check_world:
  "snd (check_ami_backup_status e w i) = w\<lparr>ec2_calls := ec2_calls w @ [DescribeImages i]\<rparr>"
  by (simp add: check_ami_backup_status_def list_instance_amis_def Let_def
           split: sum.splits exn.splits amis_result.splits list.splits prod.splits)

lemma check_world_independent:
  "fst (check_ami_backup_status e w i) = fst (check_ami_backup_status e w' i)"
  by (simp add: check_ami_backup_status_def list_instance_amis_def Let_def
           split: sum.splits exn.splits amis_result.splits list.splits prod.splits)

lemma generate_mutations:
  "generate_confirmation_token e w a p = (t, w') \<Longrightarrow> mutations w' = mutations w"
  using generate_calls [of e w a p] by (simp add: mutations_def)

lemma terminate_require_mutations:
  "mutations (snd (terminate_require_confirmation e w i inst)) = mutations w"
  by (simp add: terminate_require_confirmation_def log_action_mutations generate_mutations
           split: prod.splits)


lemma token_gate_without_token:
  "\<not> truthy tok \<Longrightarrow>
   terminate_token_gate e w i inst tok = terminate_require_confirmation e w i inst"
  by (simp add: terminate_token_gate_def truthy_def split: option.splits)

lemma mutations_describe [simp]:
  "mutations (w\<lparr>ec2_calls := ec2_calls w @ [DescribeInstances i]\<rparr>) = mutations w"
  "mutations (w\<lparr>ec2_calls := ec2_calls w @ [DescribeImages i]\<rparr>) = mutations w"
  "mutations (w\<lparr>ec2_calls := ec2_calls w @ [DescribeVolumes i]\<rparr>) = mutations w"
  by (simp_all add: mutations_def)

lemma terminate_without_token_mutations:
  assumes "\<not> truthy tok"
  shows "mutations (snd (terminate_ec2_instance e w i tok skip)) = mutations w"
proof -
  let ?w1 = "w\<lparr>ec2_calls := ec2_calls w @ [DescribeInstances i]\<rparr>"
  have c: "snd (check_ami_backup_status e ?w1 i) = ?w1\<lparr>ec2_calls := ec2_calls ?w1 @ [DescribeImages i]\<rparr>"
    by (rule check_world)
  show ?thesis
    using c
    by (auto simp: terminate_ec2_instance_def Let_def token_gate_without_token [OF assms]
          on_exception_mutations terminate_require_mutations log_action_mutations
          split: sum.splits list.splits prod.splits)
       (simp_all add: mutations_def)
qed


lemma terminate_require_result:
  "terminate_require_confirmation e w i inst =
     (TerminateConfirmation
        (if token_put_item e = None
         then Some (token_value e ''terminate_instance'' [(''instance_id'', i)]) else None)
        i (instance_name_of inst) (InstanceType inst) (StateName inst),
      log_action e (snd (generate_confirmation_token e w ''terminate_instance'' [(''instance_id'', i)]))
        ''terminate_instance'' [(''instance_id'', i)] ''requires_confirmation'' None None None None)"
  by (subst terminate_require_confirmation_def, subst generate_result) simp


lemma terminate_passes_backup_gate:
  assumes "describe_instances e i = Inr ((inst # insts) # rs)"
    and "skip \<or> (\<exists>bs. fst (check_ami_backup_status e w i) = Inr bs
                  \<and> (bs_has_recent_backup bs \<or> \<not> bs_success bs))"
  shows "terminate_ec2_instance e w i tok skip =
     terminate_token_gate e
       (w\<lparr>ec2_calls := ec2_calls w @ (if skip then [DescribeInstances i]
                                        else [DescribeInstances i, DescribeImages i])\<rparr>)
       i inst tok"
proof (cases skip)
  case True
  then show ?thesis using assms(1) by (simp add: terminate_ec2_instance_def Let_def)
next
  case False
  let ?w1 = "w\<lparr>ec2_calls := ec2_calls w @ [DescribeInstances i]\<rparr>"
  from False assms(2) obtain bs where
    bs: "fst (check_ami_backup_status e w i) = Inr bs" "bs_has_recent_backup bs \<or> \<not> bs_success bs"
    by blast
  have "fst (check_ami_backup_status e ?w1 i) = Inr bs"
    using bs(1) check_world_independent [of e ?w1 i w] by simp
  then have "check_ami_backup_status e ?w1 i =
      (Inr bs, ?w1\<lparr>ec2_calls := ec2_calls ?w1 @ [DescribeImages i]\<rparr>)"
    using check_world [of e ?w1 i] by (metis prod.collapse)
  then show ?thesis
    using False assms(1) bs(2) by (auto simp: terminate_ec2_instance_def Let_def)
qed

lemma terminate_without_token_response:
  assumes "\<not> truthy tok"
    and "describe_instances e i = Inr ((inst # insts) # rs)"
    and "skip \<or> (\<exists>bs. fst (check_ami_backup_status e w i) = Inr bs
                  \<and> (bs_has_recent_backup bs \<or> \<not> bs_success bs))"
  shows "fst (terminate_ec2_instance e w i tok skip) =
           TerminateConfirmation
             (if token_put_item e = None
              then Some (token_value e ''terminate_instance'' [(''instance_id'', i)]) else None)
             i (instance_name_of inst) (InstanceType inst) (StateName inst)"
    and "token_put_item e = None \<Longrightarrow>
         confirmation_table (snd (terminate_ec2_instance e w i tok skip))
           (token_value e ''terminate_instance'' [(''instance_id'', i)]) =
         Some \<lparr> t_action = ''terminate_instance'', t_parameters = [(''instance_id'', i)],
                created_at = isoformat e (now e),
                expires_at = py_int (now e + 300), ttl = py_int (now e + 300) \<rparr>"
  by (simp_all add: terminate_passes_backup_gate [OF assms(2,3)] token_gate_without_token [OF assms(1)]
        terminate_require_result log_action_frame generate_stores)





subsection \<open>Backup gate\<close>




lemma logged_same_decision:
  "confirmation_table w = confirmation_table w' \<Longrightarrow> mutations w = mutations w' \<Longrightarrow>
   same_decision (r, log_action e w a p s x y q m) (r, log_action e w' a p s x y q m)"
  by (simp add: same_decision_def log_action_frame log_action_mutations)

lemma on_exception_same_decision:
  "confirmation_table w = confirmation_table w' \<Longrightarrow> mutations w = mutations w' \<Longrightarrow>
   same_decision (on_exception e w a p ex) (on_exception e w' a p ex)"
  by (cases ex) (simp_all add: on_exception_def logged_same_decision, simp_all add: same_decision_def)

lemma mutations_append:
  "mutations (w\<lparr>ec2_calls := ec2_calls w @ cs\<rparr>) = mutations w @ filter is_mutating cs"
  by (simp add: mutations_def)

lemma terminate_execute_same_decision:
  assumes "confirmation_table w = confirmation_table w'" and "mutations w = mutations w'"
  shows "same_decision (terminate_execute e w i n) (terminate_execute e w' i n)"
proof -
  let ?v = "w\<lparr>ec2_calls := ec2_calls w @ [TerminateInstances i]\<rparr>"
  let ?v' = "w'\<lparr>ec2_calls := ec2_calls w' @ [TerminateInstances i]\<rparr>"
  have t: "confirmation_table ?v = confirmation_table ?v'" using assms(1) by simp
  have m: "mutations ?v = mutations ?v'" using assms(2) by (simp add: mutations_append)
  show ?thesis
    unfolding terminate_execute_def Let_def
    using on_exception_same_decision [OF t m] logged_same_decision [OF t m] t m
    by (auto simp: same_decision_def split: sum.splits list.splits)
qed

lemma generate_same_decision:
  assumes "confirmation_table w = confirmation_table w'" and "mutations w = mutations w'"
  shows "fst (generate_confirmation_token e w a p) = fst (generate_confirmation_token e w' a p)
     \<and> confirmation_table (snd (generate_confirmation_token e w a p)) =
         confirmation_table (snd (generate_confirmation_token e w' a p))
     \<and> mutations (snd (generate_confirmation_token e w a p)) =
         mutations (snd (generate_confirmation_token e w' a p))"
  using assms
  by (simp add: generate_confirmation_token_def Let_def mutations_def split: option.splits)

lemma terminate_require_same_decision:
  assumes "confirmation_table w = confirmation_table w'" and "mutations w = mutations w'"
  shows "same_decision (terminate_require_confirmation e w i inst)
                       (terminate_require_confirmation e w' i inst)"
  using generate_same_decision [OF assms, of e "''terminate_instance''" "[(''instance_id'', i)]"]
  by (simp add: terminate_require_result same_decision_def log_action_frame log_action_mutations)

lemma verify_same_decision:
  assumes "confirmation_table w = confirmation_table w'" and "mutations w = mutations w'"
  shows "fst (verify_confirmation_token e w tok) = fst (verify_confirmation_token e w' tok)
     \<and> confirmation_table (snd (verify_confirmation_token e w tok)) =
         confirmation_table (snd (verify_confirmation_token e w' tok))
     \<and> mutations (snd (verify_confirmation_token e w tok)) =
         mutations (snd (verify_confirmation_token e w' tok))"
  using assms
  by (simp add: verify_confirmation_token_def mutations_def split: option.splits)

lemma token_gate_same_decision:
  assumes "confirmation_table w = confirmation_table w'" and "mutations w = mutations w'"
  shows "same_decision (terminate_token_gate e w i inst tok) (terminate_token_gate e w' i inst tok)"
proof (cases "truthy tok")
  case False
  then show ?thesis
    by (simp add: token_gate_without_token terminate_require_same_decision [OF assms])
next
  case True
  then obtain t where t: "tok = Some t" "t \<noteq> []"
    by (auto simp: truthy_def split: option.splits)
  obtain v u where vu: "verify_confirmation_token e w t = (v, u)" by (cases "verify_confirmation_token e w t")
  obtain v' u' where vu': "verify_confirmation_token e w' t = (v', u')" by (cases "verify_confirmation_token e w' t")
  from verify_same_decision [OF assms, of e t] vu vu'
  have eq: "v = v'" "confirmation_table u = confirmation_table u'" "mutations u = mutations u'"
    by simp_all
  show ?thesis
  proof (cases v)
    case (Valid a p)
    then show ?thesis
      using t vu vu' eq terminate_execute_same_decision [OF eq(2,3)]
      by (simp add: terminate_token_gate_def)
  next
    case (Invalid x)
    then show ?thesis
      using t vu vu' eq by (simp add: terminate_token_gate_def same_decision_def)
  qed
qed

lemma token_gate_never_asks_for_backup:
  "fst (terminate_token_gate e w i inst tok) \<noteq> BackupRequired bs m r"
  by (auto simp: terminate_token_gate_def terminate_require_result terminate_execute_def
        on_exception_def Let_def
        split: option.splits prod.splits verification.splits sum.splits list.splits exn.splits)

text \<open>
  Claim C6: when the listing of the images fails with a \<^verbatim>\<open>ClientError\<close>, the backup
  status has \<^verbatim>\<open>success = False\<close> and a request without \<^verbatim>\<open>skip_backup\<close> goes to the
  confirmation gate: it is never answered with the backup recommendation, and its
  response, the tokens it leaves and the mutating calls it makes are those of the same
  request with \<^verbatim>\<open>skip_backup\<close>.
\<close>

theorem backup_gate_fails_open:
  assumes "describe_instances e i = Inr ((inst # insts) # rs)"
    and "describe_images e i = Inl (ClientError x)"
  shows "fst (check_ami_backup_status e w i) = Inr (StatusFailed x)
     \<and> terminate_ec2_instance e w i tok False =
         terminate_token_gate e
           (w\<lparr>ec2_calls := ec2_calls w @ [DescribeInstances i, DescribeImages i]\<rparr>) i inst tok
     \<and> same_decision (terminate_ec2_instance e w i tok False) (terminate_ec2_instance e w i tok True)
     \<and> (\<forall>bs m r. fst (terminate_ec2_instance e w i tok False) \<noteq> BackupRequired bs m r)"
proof -
  have c: "fst (check_ami_backup_status e w i) = Inr (StatusFailed x)"
    using assms(2) by (simp add: check_ami_backup_status_def list_instance_amis_def Let_def)
  then have o: "False \<or> (\<exists>bs. fst (check_ami_backup_status e w i) = Inr bs
                  \<and> (bs_has_recent_backup bs \<or> \<not> bs_success bs))"
    by simp
  have f: "terminate_ec2_instance e w i tok False =
         terminate_token_gate e
           (w\<lparr>ec2_calls := ec2_calls w @ [DescribeInstances i, DescribeImages i]\<rparr>) i inst tok"
    using terminate_passes_backup_gate [OF assms(1) o, of tok] by simp
  have t: "terminate_ec2_instance e w i tok True =
         terminate_token_gate e (w\<lparr>ec2_calls := ec2_calls w @ [DescribeInstances i]\<rparr>) i inst tok"
    using terminate_passes_backup_gate [OF assms(1), of True w tok] by simp
  have s: "same_decision (terminate_ec2_instance e w i tok False) (terminate_ec2_instance e w i tok True)"
    unfolding f t by (rule token_gate_same_decision) (simp_all add: mutations_def)
  show ?thesis using c f s token_gate_never_asks_for_backup by simp
qed

theorem backup_gate_fails_open_witness:
  "describe_images (sample_env\<lparr>describe_images := (\<lambda>i. Inl (ClientError ''AccessDenied''))\<rparr>) ''i-1''
     = Inl (ClientError ''AccessDenied'')
   \<and> same_decision
       (terminate_ec2_instance (sample_env\<lparr>describe_images := (\<lambda>i. Inl (ClientError ''AccessDenied''))\<rparr>)
          empty_world ''i-1'' None False)
       (terminate_ec2_instance (sample_env\<lparr>describe_images := (\<lambda>i. Inl (ClientError ''AccessDenied''))\<rparr>)
          empty_world ''i-1'' None True)
   \<and> fst (terminate_ec2_instance (sample_env\<lparr>describe_images := (\<lambda>i. Inl (ClientError ''AccessDenied''))\<rparr>)
          empty_world ''i-1'' None True)
       = TerminateConfirmation (Some ''0.0001:1-I=D'') ''i-1'' ''web'' ''t3.micro'' ''running''"
proof -
  let ?e = "sample_env\<lparr>describe_images := (\<lambda>i. Inl (ClientError ''AccessDenied''))\<rparr>"
  have d: "describe_instances ?e ''i-1'' =
      Inr ((\<lparr> InstanceType = ''t3.micro'', StateName = ''running'', Tags = [(''Name'', ''web'')] \<rparr> # []) # [])"
    by (simp add: sample_env_def)
  have g: "describe_images ?e ''i-1'' = Inl (ClientError ''AccessDenied'')" by simp
  have t: "token_value ?e ''terminate_instance'' [(''instance_id'', ''i-1'')] = ''0.0001:1-I=D''"
    by (simp add: token_value_def sample_env_def upper_def upper_char_def)
  have r: "fst (terminate_ec2_instance ?e empty_world ''i-1'' None True)
       = TerminateConfirmation (Some ''0.0001:1-I=D'') ''i-1'' ''web'' ''t3.micro'' ''running''"
    using terminate_without_token_response(1) [of None ?e "''i-1''" _ "[]" "[]" True empty_world, OF _ d]
    by (simp add: truthy_def t instance_name_of_def) (simp add: sample_env_def)
  from backup_gate_fails_open [OF d g, of empty_world None] g r
  show ?thesis by blast
qed

subsection \<open>What a token authorizes\<close>

lemma terminate_with_valid_token:
  assumes "describe_instances e b = Inr ((inst # insts) # rs)"
    and "confirmation_table w tok = Some item" and "tok \<noteq> []"
    and "py_int (now e) \<le> expires_at item"
    and "token_get_item e = None" and "token_delete_item e = None"
    and "terminate_instances e b = Inr (st # sts)"
  shows "fst (terminate_ec2_instance e w b (Some tok) True) = Terminated b (instance_name_of inst) st
     \<and> ec2_calls (snd (terminate_ec2_instance e w b (Some tok) True)) =
         ec2_calls w @ [DescribeInstances b, TerminateInstances b]
     \<and> confirmation_table (snd (terminate_ec2_instance e w b (Some tok) True)) tok = None"
proof -
  let ?w1 = "w\<lparr>ec2_calls := ec2_calls w @ [DescribeInstances b]\<rparr>"
  have v: "verify_confirmation_token e ?w1 tok =
      (Valid (t_action item) (t_parameters item),
       ?w1\<lparr>confirmation_table := (confirmation_table ?w1)(tok := None)\<rparr>)"
    using assms(2,4,5,6) by (simp add: verify_confirmation_token_def)
  show ?thesis
    using assms(1,3,7) v
    by (simp add: terminate_ec2_instance_def terminate_token_gate_def terminate_execute_def
          Let_def log_action_frame)
qed

text \<open>
  Claim C1 fails on the code: \<^verbatim>\<open>verify_confirmation_token\<close> returns the action and the
  parameters bound to the token, and no caller compares them with the request. A token
  issued for the termination of instance \<open>a\<close> and presented, before its expiry, with a
  request to terminate instance \<open>b\<close> is accepted, and \<^verbatim>\<open>terminate_instances\<close> is called
  on \<open>b\<close>.
\<close>

theorem token_for_one_instance_terminates_another:
  assumes "describe_instances e a = Inr ((inst_a # more_a) # rs_a)"
    and "token_put_item e = None"
    and "token_value e ''terminate_instance'' [(''instance_id'', a)] \<noteq> []"
    and "describe_instances e2 b = Inr ((inst_b # more_b) # rs_b)"
    and "py_int (now e2) \<le> py_int (now e + 300)"
    and "token_get_item e2 = None" and "token_delete_item e2 = None"
    and "terminate_instances e2 b = Inr (st # sts)"
  shows "fst (terminate_ec2_instance e w a None True) =
           TerminateConfirmation (Some (token_value e ''terminate_instance'' [(''instance_id'', a)]))
             a (instance_name_of inst_a) (InstanceType inst_a) (StateName inst_a)
     \<and> map_option t_parameters
          (confirmation_table (snd (terminate_ec2_instance e w a None True))
             (token_value e ''terminate_instance'' [(''instance_id'', a)]))
         = Some [(''instance_id'', a)]
     \<and> fst (terminate_ec2_instance e2 (snd (terminate_ec2_instance e w a None True)) b
              (Some (token_value e ''terminate_instance'' [(''instance_id'', a)])) True)
         = Terminated b (instance_name_of inst_b) st
     \<and> mutations (snd (terminate_ec2_instance e2 (snd (terminate_ec2_instance e w a None True)) b
              (Some (token_value e ''terminate_instance'' [(''instance_id'', a)])) True))
         = mutations w @ [TerminateInstances b]"
proof -
  let ?tok = "token_value e ''terminate_instance'' [(''instance_id'', a)]"
  let ?w1 = "snd (terminate_ec2_instance e w a None True)"
  let ?item = "\<lparr> t_action = ''terminate_instance'', t_parameters = [(''instance_id'', a)],
                created_at = isoformat e (now e),
                expires_at = py_int (now e + 300), ttl = py_int (now e + 300) \<rparr>"
  have n: "\<not> truthy None" by (simp add: truthy_def)
  have r: "fst (terminate_ec2_instance e w a None True) =
           TerminateConfirmation (Some ?tok) a (instance_name_of inst_a) (InstanceType inst_a)
             (StateName inst_a)"
    using terminate_without_token_response(1) [OF n assms(1), of True w] assms(2) by simp
  have s: "confirmation_table ?w1 ?tok = Some ?item"
    using terminate_without_token_response(2) [OF n assms(1) _ assms(2), of True w] by simp
  have m: "mutations ?w1 = mutations w"
    by (rule terminate_without_token_mutations [OF n])
  have x: "py_int (now e2) \<le> expires_at ?item" using assms(5) by simp
  from terminate_with_valid_token [OF assms(4) s assms(3) x assms(6,7,8)]
  have t: "fst (terminate_ec2_instance e2 ?w1 b (Some ?tok) True) = Terminated b (instance_name_of inst_b) st"
    and c: "ec2_calls (snd (terminate_ec2_instance e2 ?w1 b (Some ?tok) True)) =
         ec2_calls ?w1 @ [DescribeInstances b, TerminateInstances b]"
    by simp_all
  have "mutations (snd (terminate_ec2_instance e2 ?w1 b (Some ?tok) True)) = mutations w @ [TerminateInstances b]"
    using c m by (simp add: mutations_def)
  with r s t show ?thesis by simp
qed

theorem token_for_one_instance_terminates_another_witness:
  "fst (terminate_ec2_instance sample_env empty_world ''i-1'' None True) =
     TerminateConfirmation (Some ''0.0001:1-I=D'') ''i-1'' ''web'' ''t3.micro'' ''running''
   \<and> map_option t_parameters (confirmation_table issued_world ''0.0001:1-I=D'')
       = Some [(''instance_id'', ''i-1'')]
   \<and> fst (terminate_ec2_instance sample_env issued_world ''i-2'' (Some ''0.0001:1-I=D'') True)
       = Terminated ''i-2'' ''web'' ''shutting-down''
   \<and> mutations (snd (terminate_ec2_instance sample_env issued_world ''i-2''
        (Some ''0.0001:1-I=D'') True)) = [TerminateInstances ''i-2'']"
proof -
  let ?inst = "\<lparr> InstanceType = ''t3.micro'', StateName = ''running'', Tags = [(''Name'', ''web'')] \<rparr>"
  have d1: "describe_instances sample_env ''i-1'' = Inr ((?inst # []) # [])"
    and d2: "describe_instances sample_env ''i-2'' = Inr ((?inst # []) # [])"
    and p: "token_put_item sample_env = None"
    and g: "token_get_item sample_env = None" and dl: "token_delete_item sample_env = None"
    and ti: "terminate_instances sample_env ''i-2'' = Inr (''shutting-down'' # [])"
    by (simp_all add: sample_env_def)
  have ne: "token_value sample_env ''terminate_instance'' [(''instance_id'', ''i-1'')] \<noteq> []"
    by (simp add: sample_token)
  have x: "py_int (now sample_env) \<le> py_int (now sample_env + 300)"
    by (simp add: sample_env_def py_int_def)
  have m: "mutations empty_world = []" by (simp add: mutations_def empty_world_def)
  show ?thesis
    using token_for_one_instance_terminates_another [OF d1 p ne d2 x g dl ti, of empty_world]
    by (simp add: sample_token instance_name_of_def m issued_world_def)
qed

end
